theory Spec2Isabelle
  imports Complex_Main "HOL-Library.Sublist"
begin

section \<open>The answer-processing pipeline of \<^verbatim>\<open>backend/routes/transcribe.js\<close>\<close>

text \<open>
  The development embeds the JavaScript of \<^verbatim>\<open>transcribe.js\<close>: the sentence splitter,
  the retry loop around the external classifier, the accumulation and normalisation of
  the score map, the label table \<^verbatim>\<open>emotionMap\<close> and the request handler with its
  \<^verbatim>\<open>try\<close>/\<^verbatim>\<open>catch\<close>/\<^verbatim>\<open>finally\<close>.

  Conventions of the model:
  \<^item> a JavaScript string is a \<^typ>\<open>string\<close>; the code only ever inspects the characters
    \<^verbatim>\<open>.\<close>, \<^verbatim>\<open>!\<close>, \<^verbatim>\<open>?\<close>, the white space and the backtick, all of them ASCII;
  \<^item> a JavaScript number is a \<^typ>\<open>rat\<close>: arithmetic is exact, so the rounding that
    \<^verbatim>\<open>toFixed(4)\<close> performs is in the model and the rounding of the double format is not;
  \<^item> an object used as a dictionary is an association list in insertion order, which is
    the order in which JavaScript enumerates the keys that are not array indices;
  \<^item> everything outside the file (the uploaded file's \<^verbatim>\<open>mv\<close>, \<^verbatim>\<open>runCommand\<close>,
    \<^verbatim>\<open>cleanTranscription\<close>, the classifier, the generative model, \<^verbatim>\<open>JSON.parse\<close>, the
    constants of \<^verbatim>\<open>paths.js\<close>) is a field of an environment record, and every
    exception it can throw is a value.
\<close>

subsection \<open>Strings\<close>

text \<open>The three characters of the class \<^verbatim>\<open>[.!?]\<close>.\<close>

definition isTerminal :: "char \<Rightarrow> bool" where
  "isTerminal c = (c = CHR ''.'' \<or> c = CHR ''!'' \<or> c = CHR ''?'')"

text \<open>
  White space as \<^verbatim>\<open>String.prototype.trim\<close> sees it, on the characters below U+0100:
  tab, line feed, vertical tab, form feed, carriage return, space and the no-break space.
\<close>

definition isWhiteSpace :: "char \<Rightarrow> bool" where
  "isWhiteSpace c = (c \<in> set [CHR 0x09, CHR 0x0A, CHR 0x0B, CHR 0x0C, CHR 0x0D, CHR 0x20, CHR 0xA0])"

definition trim :: "string \<Rightarrow> string" where
  "trim s = rev (dropWhile isWhiteSpace (rev (dropWhile isWhiteSpace s)))"

subsection \<open>Sentence splitting\<close>

text \<open>
  \<^verbatim>\<open>text.match(/[^.!?]+[.!?]?/g)\<close>: the matcher tries each position from left to right.
  At a terminal character \<^verbatim>\<open>[^.!?]+\<close> cannot match, and the search moves one character
  on. Elsewhere the greedy \<^verbatim>\<open>[^.!?]+\<close> takes the whole run of non-terminal characters
  and \<^verbatim>\<open>[.!?]?\<close> takes the terminal character after it when there is one; the search
  resumes after the match.
\<close>

function matchAll :: "string \<Rightarrow> string list" where
  "matchAll [] = []"
| "matchAll (c # cs) =
     (if isTerminal c then matchAll cs
      else (let run = takeWhile (\<lambda>x. \<not> isTerminal x) (c # cs);
                rest = dropWhile (\<lambda>x. \<not> isTerminal x) (c # cs)
            in case rest of
                 [] \<Rightarrow> [run]
               | t # rest' \<Rightarrow> (run @ [t]) # matchAll rest'))"
  by pat_completeness auto
termination
proof (relation "measure length", goal_cases)
  case 1
  show ?case by simp
next
  case (2 c cs)
  show ?case by simp
next
  case (3 c cs run rest t rest')
  have "length (dropWhile (\<lambda>x. \<not> isTerminal x) cs) \<le> length cs"
    by (rule length_dropWhile_le)
  moreover from 3 have "dropWhile (\<lambda>x. \<not> isTerminal x) cs = t # rest'"
    by simp
  ultimately show ?case by simp
qed

text \<open>
  \<^verbatim>\<open>const sentences = text.match(...) || [text]\<close>: \<^verbatim>\<open>match\<close> returns \<^verbatim>\<open>null\<close> when
  there is no match at all, and the whole text is then the only sentence.
\<close>

definition sentences :: "string \<Rightarrow> string list" where
  "sentences text = (case matchAll text of [] \<Rightarrow> [text] | m # ms \<Rightarrow> m # ms)"

text \<open>
  A text is punctuated one mark at a time when no terminal character starts it and none
  directly follows another one.
\<close>

fun singlyPunctuated :: "bool \<Rightarrow> string \<Rightarrow> bool" where
  "singlyPunctuated afterTerminal [] = True"
| "singlyPunctuated afterTerminal (c # cs) =
     (if isTerminal c then \<not> afterTerminal \<and> singlyPunctuated True cs
      else singlyPunctuated False cs)"

definition wellPunctuated :: "string \<Rightarrow> bool" where
  "wellPunctuated text = singlyPunctuated True text"

text \<open>
  Equality of two strings up to white space, the most liberal reading of
  ``apart from whitespace normalization'': the white space is taken out of both.
\<close>

definition sameUpToWhiteSpace :: "string \<Rightarrow> string \<Rightarrow> bool" where
  "sameUpToWhiteSpace a b = (filter (\<lambda>c. \<not> isWhiteSpace c) a = filter (\<lambda>c. \<not> isWhiteSpace c) b)"

subsection \<open>The score map\<close>

text \<open>One element \<^verbatim>\<open>r\<close> of the array the classifier resolves to.\<close>

record classification =
  label :: string
  score :: rat

type_synonym scoreMap = "(string \<times> rat) list"

text \<open>
  The assignment \<^verbatim>\<open>scoreMap[k] = v\<close>: an existing key keeps its place in the
  enumeration order, a new key goes last.
\<close>

fun setProp :: "string \<Rightarrow> rat \<Rightarrow> scoreMap \<Rightarrow> scoreMap" where
  "setProp k v [] = [(k, v)]"
| "setProp k v ((k', v') # m) = (if k' = k then (k, v) # m else (k', v') # setProp k v m)"

text \<open>
  The body of \<^verbatim>\<open>res.forEach\<close>:
  \<^verbatim>\<open>if (!scoreMap[r.label]) scoreMap[r.label] = 0; scoreMap[r.label] += r.score;\<close>
  The test is true for a missing key and for a key whose score is \<^verbatim>\<open>0\<close>.
  Labels that name a property every object inherits (see \<open>objectPrototype\<close> below) and
  labels that are array indices, which an object enumerates first, are outside this model
  of the score map.
\<close>

definition accumulate :: "scoreMap \<Rightarrow> classification \<Rightarrow> scoreMap" where
  "accumulate m r =
     (case map_of m (label r) of
        None \<Rightarrow> setProp (label r) (0 + score r) (setProp (label r) 0 m)
      | Some v \<Rightarrow>
          (if v = 0 then setProp (label r) (0 + score r) (setProp (label r) 0 m)
           else setProp (label r) (v + score r) m))"

text \<open>\<^verbatim>\<open>Object.values(scoreMap).reduce((sum, score) => sum + score, 0)\<close>\<close>

definition totalScore :: "scoreMap \<Rightarrow> rat" where
  "totalScore m = foldl (\<lambda>sum score. sum + score) 0 (map snd m)"

text \<open>
  \<^verbatim>\<open>parseFloat(x.toFixed(4))\<close>. \<^verbatim>\<open>toFixed\<close> works on the absolute value and puts the
  sign back; it takes the integer \<open>n\<close> with \<open>n / 10^4\<close> closest to the value, the larger
  one of two equally close; from \<open>10^21\<close> on it prints the number itself.
\<close>

definition toFixed4 :: "rat \<Rightarrow> rat" where
  "toFixed4 x =
     (if 10 ^ 21 \<le> \<bar>x\<bar> then x
      else if x < 0 then - (of_int \<lfloor>- x * 10 ^ 4 + 1 / 2\<rfloor> / 10 ^ 4)
      else of_int \<lfloor>x * 10 ^ 4 + 1 / 2\<rfloor> / 10 ^ 4)"

text \<open>
  \<^verbatim>\<open>if (totalScore > 0) for (const label in scoreMap) scoreMap[label] = ...\<close>:
  every score is replaced in place, the total having been computed before the loop.
\<close>

definition normalizeScores :: "scoreMap \<Rightarrow> scoreMap" where
  "normalizeScores m =
     (if totalScore m > 0
      then map (\<lambda>e. (fst e, toFixed4 (snd e / totalScore m))) m
      else m)"

text \<open>
  \<^verbatim>\<open>Object.entries(scoreMap).sort((a, b) => b[1] - a[1])\<close>: a stable sort by descending
  score; \<^const>\<open>sort_key\<close> is a stable insertion sort.
\<close>

definition sortedEntries :: "scoreMap \<Rightarrow> scoreMap" where
  "sortedEntries m = sort_key (\<lambda>e. - snd e) m"

subsection \<open>Values and events\<close>

text \<open>A JSON value, as \<^verbatim>\<open>JSON.parse\<close> returns it and \<^verbatim>\<open>res.json\<close> sends it.\<close>

datatype json =
    JNull
  | JBool bool
  | JNum rat
  | JStr string
  | JArr "json list"
  | JObj "(string \<times> json) list"

text \<open>
  The value of \<^verbatim>\<open>emotionMap[label] || label\<close>: a string, or the function or object
  that \<^verbatim>\<open>Object.prototype\<close> holds under that name.
\<close>

datatype jsValue = Str string | Inherited string

text \<open>
  \<^verbatim>\<open>masterPrompt\<close> is a template literal; its text is fixed up to the seven values it
  interpolates, which are kept as they are (\<open>None\<close> is \<^verbatim>\<open>undefined\<close>).
\<close>

record prompt =
  promptDomain :: "string option"
  promptExperience :: "string option"
  promptQuestion :: "string option"
  promptTranscript :: string
  promptPosture :: json
  promptEmotion :: json
  promptTone :: jsValue

text \<open>
  What a request does to the outside world, in the order in which it does it: the upload
  moved to a path, a command run, the classifier called on a sentence, a wait in
  milliseconds, a warning and an error written to the console, the generative model called
  on a prompt, a file unlinked (with the error its callback gets). The handler and
  \<^verbatim>\<open>classifyParagraph\<close> append to one such trace.
\<close>

datatype event =
    Moved string
  | Ran string "string list"
  | Classified string
  | Slept nat
  | Warned string string
  | Generated prompt
  | LoggedError string
  | Unlinked string "string option"

subsection \<open>Classification with retries\<close>

text \<open>
  \<^verbatim>\<open>hf.textClassification\<close>: the outcome of a call may depend on its input and on how
  many calls the request has made before. \<open>Inl\<close> is a rejected promise with the error's
  message, \<open>Inr\<close> the array of classifications.
\<close>

type_synonym classifier = "nat \<Rightarrow> string \<Rightarrow> string + classification list"

record classifyState =
  scores :: scoreMap
  calls :: nat
  trace :: "event list"

definition maxRetries :: nat where
  "maxRetries = 3"

text \<open>
  \<^verbatim>\<open>for (let attempt = 1; attempt <= maxRetries; attempt++)\<close> with its \<^verbatim>\<open>try\<close> and
  \<^verbatim>\<open>catch\<close>: a success accumulates and breaks; a failure warns on the last attempt and
  waits 500 ms on the others.
\<close>

function attemptLoop :: "classifier \<Rightarrow> string \<Rightarrow> nat \<Rightarrow> classifyState \<Rightarrow> classifyState" where
  "attemptLoop hf trimmed attempt st =
     (if attempt \<le> maxRetries then
        (case hf (calls st) trimmed of
           Inr res \<Rightarrow>
             st\<lparr>scores := foldl accumulate (scores st) res,
                calls := calls st + 1,
                trace := trace st @ [Classified trimmed]\<rparr>
         | Inl message \<Rightarrow>
             (if attempt = maxRetries
              then attemptLoop hf trimmed (attempt + 1)
                     (st\<lparr>calls := calls st + 1,
                         trace := trace st @ [Classified trimmed, Warned trimmed message]\<rparr>)
              else attemptLoop hf trimmed (attempt + 1)
                     (st\<lparr>calls := calls st + 1,
                         trace := trace st @ [Classified trimmed, Slept 500]\<rparr>)))
      else st)"
  by pat_completeness auto
termination
  by (relation "measure (\<lambda>(hf, trimmed, attempt, st). maxRetries + 1 - attempt)") auto

declare attemptLoop.simps [simp del]

text \<open>\<^verbatim>\<open>for (const s of sentences)\<close>: a sentence that trims to nothing is skipped.\<close>

fun sentenceLoop :: "classifier \<Rightarrow> string list \<Rightarrow> classifyState \<Rightarrow> classifyState" where
  "sentenceLoop hf [] st = st"
| "sentenceLoop hf (s # ss) st =
     (let trimmed = trim s
      in if length trimmed = 0 then sentenceLoop hf ss st
         else sentenceLoop hf ss (attemptLoop hf trimmed 1 st))"

record paragraphResult =
  dominantEmotion :: string
  detailedScores :: scoreMap

definition classifyParagraph :: "classifier \<Rightarrow> string \<Rightarrow> paragraphResult \<times> event list" where
  "classifyParagraph hf text =
     (let st = sentenceLoop hf (sentences text) \<lparr>scores = [], calls = 0, trace = []\<rparr>;
          scoreMap = normalizeScores (scores st);
          sorted = sortedEntries scoreMap
      in (\<lparr>dominantEmotion = (case sorted of [] \<Rightarrow> ''neutral'' | e # es \<Rightarrow> fst e),
           detailedScores = scoreMap\<rparr>,
          trace st))"

subsection \<open>The label table\<close>

definition emotionMap :: "(string \<times> string) list" where
  "emotionMap =
     [(''joy'', ''Confident''),
      (''love'', ''Confident''),
      (''surprise'', ''Engaged''),
      (''sadness'', ''Hesitant''),
      (''fear'', ''Cautious''),
      (''anger'', ''Assertive'')]"

text \<open>
  \<^verbatim>\<open>emotionMap\<close> is an object literal, so a property it does not own is looked up in
  \<^verbatim>\<open>Object.prototype\<close>. These are the names found there; each holds a function,
  \<^verbatim>\<open>__proto__\<close> the prototype object itself, and all of them are truthy.
\<close>

definition objectPrototype :: "string list" where
  "objectPrototype =
     [''constructor'', ''__defineGetter__'', ''__defineSetter__'', ''hasOwnProperty'',
      ''__lookupGetter__'', ''__lookupSetter__'', ''isPrototypeOf'',
      ''propertyIsEnumerable'', ''toString'', ''valueOf'', ''__proto__'',
      ''toLocaleString'']"

text \<open>
  \<^verbatim>\<open>emotionMap[d] || d\<close>: the own property when it is truthy (a non-empty string), the
  inherited one otherwise, and \<^verbatim>\<open>d\<close> when the lookup is \<^verbatim>\<open>undefined\<close>.
\<close>

definition mapEmotion :: "string \<Rightarrow> jsValue" where
  "mapEmotion d =
     (case map_of emotionMap d of
        Some v \<Rightarrow> (if v = [] then Str d else Str v)
      | None \<Rightarrow> (if d \<in> set objectPrototype then Inherited d else Str d))"

subsection \<open>The request handler\<close>

text \<open>
  The request: whether \<^verbatim>\<open>req.files.audio\<close> is there, and the five fields read from
  \<^verbatim>\<open>req.body || {}\<close> (\<open>None\<close> is \<^verbatim>\<open>undefined\<close>).
\<close>

record request =
  hasAudio :: bool
  questionText :: "string option"
  domain :: "string option"
  experience :: "string option"
  postureData :: "string option"
  emotionData :: "string option"

text \<open>
  The collaborators of the handler. \<^verbatim>\<open>paths.js\<close>, \<^verbatim>\<open>fileHelpers.js\<close> and
  \<^verbatim>\<open>apiClients.js\<close> are other modules, whose constants and functions are fields
  here, as are the library calls. A call that can throw or reject
  returns \<open>Inl\<close> with the message of the error (\<open>Some\<close> for \<^verbatim>\<open>mv\<close>, which resolves to
  nothing). \<open>uniqueId\<close> is the value of
  \<^verbatim>\<open>Date.now() + "-" + Math.round(Math.random() * 1e9)\<close>; \<open>generateContent\<close> stands
  for \<^verbatim>\<open>genAI.getGenerativeModel(...)\<close>, \<^verbatim>\<open>model.generateContent(masterPrompt)\<close> and
  \<^verbatim>\<open>result.response.text()\<close> together.
\<close>

record env =
  uploadsDir :: string
  ffmpegPath :: string
  whisperExe :: string
  modelBin :: string
  uniqueId :: string
  pathJoin :: "string \<Rightarrow> string \<Rightarrow> string"
  mv :: "string \<Rightarrow> string option"
  runCommand :: "string \<Rightarrow> string list \<Rightarrow> string + string"
  cleanTranscription :: "string \<Rightarrow> string"
  textClassification :: classifier
  jsonParse :: "string \<Rightarrow> string + json"
  generateContent :: "prompt \<Rightarrow> string + string"

datatype response = Send nat string | SendJson nat json

text \<open>
  \<^verbatim>\<open>webmPath.replace(/\.[^/.]+$/, ".wav")\<close>: the pattern matches a dot followed, up to the
  end, by one or more characters that are neither a slash nor a dot.
\<close>

definition replaceExtension :: "string \<Rightarrow> string \<Rightarrow> string" where
  "replaceExtension path ext =
     (let ending = takeWhile (\<lambda>c. c \<noteq> CHR ''/'' \<and> c \<noteq> CHR ''.'') (rev path);
          before = dropWhile (\<lambda>c. c \<noteq> CHR ''/'' \<and> c \<noteq> CHR ''.'') (rev path)
      in case before of
           [] \<Rightarrow> path
         | d # stem \<Rightarrow> (if d = CHR ''.'' \<and> ending \<noteq> [] then rev stem @ ext else path))"

definition webmPathOf :: "env \<Rightarrow> string" where
  "webmPathOf e = pathJoin e (uploadsDir e) (uniqueId e @ ''-answer.webm'')"

definition wavPathOf :: "env \<Rightarrow> string" where
  "wavPathOf e = replaceExtension (webmPathOf e) ''.wav''"

text \<open>
  \<^verbatim>\<open>fs.unlink(path, () => {})\<close> on the set of files that exist: the file is removed, or
  the callback is called with the error \<^verbatim>\<open>ENOENT\<close>. The callback is empty, so the error
  goes nowhere; the trace records it.
\<close>

definition unlink :: "string \<Rightarrow> string set \<Rightarrow> string option \<times> string set" where
  "unlink path files =
     (if path \<in> files then (None, files - {path}) else (Some ''ENOENT'', files))"

text \<open>\<^verbatim>\<open>postureData ? JSON.parse(postureData) : null\<close>: the empty string is falsy.\<close>

definition parseOptional :: "env \<Rightarrow> string option \<Rightarrow> string + json" where
  "parseOptional e d =
     (case d of
        None \<Rightarrow> Inr JNull
      | Some s \<Rightarrow> (if s = [] then Inr JNull else jsonParse e s))"

text \<open>\<^verbatim>\<open>.replace(/```json|```/g, "")\<close>\<close>

fun stripFences :: "string \<Rightarrow> string" where
  "stripFences [] = []"
| "stripFences (c # cs) =
     (if take 7 (c # cs) = ''```json'' then stripFences (drop 6 cs)
      else if take 3 (c # cs) = ''```'' then stripFences (drop 2 cs)
      else c # stripFences cs)"

text \<open>
  \<^verbatim>\<open>aiFeedback.evaluation\<close>: reading a property of \<^verbatim>\<open>null\<close> throws; an object gives its
  member or \<^verbatim>\<open>undefined\<close>; the other JSON values have no such property.
\<close>

fun getMember :: "json \<Rightarrow> string \<Rightarrow> string + json option" where
  "getMember JNull k =
     Inl (''Cannot read properties of null (reading '' @ [CHR 0x27] @ k @ [CHR 0x27] @ '')'')"
| "getMember (JObj props) k = Inr (map_of props k)"
| "getMember v k = Inr None"

text \<open>
  The argument of \<^verbatim>\<open>res.json\<close>: a member whose value is \<^verbatim>\<open>undefined\<close> is left out
  of the serialised object.
\<close>

fun members :: "(string \<times> json option) list \<Rightarrow> (string \<times> json) list" where
  "members [] = []"
| "members ((k, None) # kvs) = members kvs"
| "members ((k, Some v) # kvs) = (k, v) # members kvs"

definition scoresJson :: "scoreMap \<Rightarrow> json" where
  "scoresJson m = JObj (map (\<lambda>e. (fst e, JNum (snd e))) m)"

definition skipResponse :: json where
  "skipResponse = JObj [(''skipEvaluation'', JBool True), (''message'', JStr ''No speech detected.'')]"

text \<open>
  The statements of the \<^verbatim>\<open>try\<close> block after the no-speech test. The result is the
  response sent, or \<open>Inl\<close> with the message of the exception thrown, and the events.
\<close>

definition evaluate :: "env \<Rightarrow> request \<Rightarrow> string \<Rightarrow> (string + response) \<times> event list" where
  "evaluate e req cleanedText =
     (let (textualEmotionResult, evs) = classifyParagraph (textClassification e) cleanedText
      in case parseOptional e (postureData req) of
           Inl message \<Rightarrow> (Inl message, evs)
         | Inr parsedPostureData \<Rightarrow>
        (case parseOptional e (emotionData req) of
           Inl message \<Rightarrow> (Inl message, evs)
         | Inr parsedEmotionData \<Rightarrow>
        (let mappedDominantEmotion = mapEmotion (dominantEmotion textualEmotionResult);
             masterPrompt =
               \<lparr>promptDomain = domain req,
                promptExperience = experience req,
                promptQuestion = questionText req,
                promptTranscript = cleanedText,
                promptPosture = parsedPostureData,
                promptEmotion = parsedEmotionData,
                promptTone = mappedDominantEmotion\<rparr>;
             evs' = evs @ [Generated masterPrompt]
         in case generateContent e masterPrompt of
              Inl message \<Rightarrow> (Inl message, evs')
            | Inr text \<Rightarrow>
           (let rawResponseText = stripFences (trim text)
            in case jsonParse e rawResponseText of
                 Inl message \<Rightarrow> (Inl message, evs')
               | Inr aiFeedback \<Rightarrow>
              (case getMember aiFeedback ''evaluation'' of
                 Inl message \<Rightarrow> (Inl message, evs')
               | Inr evaluation \<Rightarrow>
              (case getMember aiFeedback ''holisticFeedback'' of
                 Inl message \<Rightarrow> (Inl message, evs')
               | Inr holisticFeedback \<Rightarrow>
                 (Inr (SendJson 200 (JObj (members
                    [(''transcription'', Some (JStr cleanedText)),
                     (''postureAnalysis'', Some (JObj [(''data'', parsedPostureData)])),
                     (''emotionAnalysis'', Some (JObj [(''data'', parsedEmotionData)])),
                     (''dominantEmotion'', Some (JStr (dominantEmotion textualEmotionResult))),
                     (''textualEmotionAnalysis'',
                        Some (JObj [(''data'', scoresJson (detailedScores textualEmotionResult))])),
                     (''evaluation'', evaluation),
                     (''holisticFeedback'', holisticFeedback),
                     (''question'', map_option JStr (questionText req))]))),
                  evs')))))))"

text \<open>
  The \<^verbatim>\<open>try\<close> block: the upload is moved, transcoded and transcribed, each step either
  throwing or going on; a successful \<^verbatim>\<open>mv\<close> and a successful transcoding leave their
  file behind.
\<close>

definition tryBlock :: "env \<Rightarrow> request \<Rightarrow> string set \<Rightarrow> (string + response) \<times> event list \<times> string set" where
  "tryBlock e req files =
     (let webmPath = webmPathOf e;
          wavPath = wavPathOf e;
          ev1 = [Moved webmPath]
      in case mv e webmPath of
           Some message \<Rightarrow> (Inl message, ev1, files)
         | None \<Rightarrow>
        (let files1 = insert webmPath files;
             ffmpegArgs = [''-y'', ''-i'', webmPath, ''-ar'', ''16000'', ''-ac'', ''1'',
                           ''-acodec'', ''pcm_s16le'', wavPath];
             ev2 = ev1 @ [Ran (ffmpegPath e) ffmpegArgs]
         in case runCommand e (ffmpegPath e) ffmpegArgs of
              Inl message \<Rightarrow> (Inl message, ev2, files1)
            | Inr converted \<Rightarrow>
           (let files2 = insert wavPath files1;
                whisperArgs = [''-f'', wavPath, ''-m'', modelBin e];
                ev3 = ev2 @ [Ran (whisperExe e) whisperArgs]
            in case runCommand e (whisperExe e) whisperArgs of
                 Inl message \<Rightarrow> (Inl message, ev3, files2)
               | Inr whisperOutput \<Rightarrow>
              (let cleanedText = cleanTranscription e whisperOutput
               in if cleanedText = [] then (Inr (SendJson 200 skipResponse), ev3, files2)
                  else (let (r, evs) = evaluate e req cleanedText
                        in (r, ev3 @ evs, files2))))))"

text \<open>
  The handler: the guard on the upload, then \<^verbatim>\<open>try\<close>, \<^verbatim>\<open>catch\<close> (which logs and
  answers 500 with the message) and \<^verbatim>\<open>finally\<close> (which unlinks both files). The result
  is the response, the trace and the files left.
\<close>

definition handler :: "env \<Rightarrow> request \<Rightarrow> string set \<Rightarrow> response \<times> event list \<times> string set" where
  "handler e req files =
     (if \<not> hasAudio req then (Send 400 ''No audio uploaded'', [], files)
      else (let (r, evs, files1) = tryBlock e req files;
                (resp, evs1) =
                  (case r of
                     Inr sent \<Rightarrow> (sent, evs)
                   | Inl message \<Rightarrow>
                       (Send 500 (''Processing failed: '' @ message), evs @ [LoggedError message]));
                (err1, files2) = unlink (webmPathOf e) files1;
                (err2, files3) = unlink (wavPathOf e) files2
            in (resp, evs1 @ [Unlinked (webmPathOf e) err1, Unlinked (wavPathOf e) err2], files3)))"

subsection \<open>Observations on a run\<close>

text \<open>The events that are calls of the classifier and of the generative model.\<close>

fun isClassified :: "event \<Rightarrow> bool" where
  "isClassified (Classified s) = True"
| "isClassified ev = False"

fun isGenerated :: "event \<Rightarrow> bool" where
  "isGenerated (Generated p) = True"
| "isGenerated ev = False"

text \<open>The events of \<open>k\<close> failed attempts that were each followed by another attempt.\<close>

definition failedAttempts :: "string \<Rightarrow> nat \<Rightarrow> event list" where
  "failedAttempts trimmed k = concat (replicate k [Classified trimmed, Slept 500])"

fun statusOf :: "response \<Rightarrow> nat" where
  "statusOf (Send code msg) = code"
| "statusOf (SendJson code body) = code"

text \<open>The \<^verbatim>\<open>evaluation\<close> member of a JSON response, when it has one.\<close>

fun evaluationOf :: "response \<Rightarrow> json option" where
  "evaluationOf (SendJson code (JObj props)) = map_of props ''evaluation''"
| "evaluationOf r = None"

text \<open>
  The invariant the specification states for an evaluation report, in its words: each of
  the ratings \<^verbatim>\<open>clarity\<close>, \<^verbatim>\<open>relevance\<close> and \<^verbatim>\<open>completeness\<close> has a score that is an
  integer in \<open>[1, 5]\<close>, and the list of tips has at most five entries.
\<close>

fun scoreInRange :: "json option \<Rightarrow> bool" where
  "scoreInRange (Some (JNum q)) = (of_int \<lfloor>q\<rfloor> = q \<and> 1 \<le> q \<and> q \<le> 5)"
| "scoreInRange v = False"

fun ratingInRange :: "json option \<Rightarrow> bool" where
  "ratingInRange (Some (JObj rating)) = scoreInRange (map_of rating ''score'')"
| "ratingInRange v = False"

fun ratingsInRange :: "json option \<Rightarrow> bool" where
  "ratingsInRange (Some (JObj ratings)) =
     (ratingInRange (map_of ratings ''clarity'') \<and>
      ratingInRange (map_of ratings ''relevance'') \<and>
      ratingInRange (map_of ratings ''completeness''))"
| "ratingsInRange v = False"

fun atMostFiveTips :: "json option \<Rightarrow> bool" where
  "atMostFiveTips (Some (JArr tips)) = (length tips \<le> 5)"
| "atMostFiveTips v = False"

fun validEvaluation :: "json \<Rightarrow> bool" where
  "validEvaluation (JObj report) =
     (ratingsInRange (map_of report ''ratings'') \<and>
      atMostFiveTips (map_of report ''howToMakeItBetter''))"
| "validEvaluation v = False"

subsection \<open>Concrete inputs\<close>




definition joyClassifier :: classifier where
  "joyClassifier n s =
     Inr [\<lparr>label = ''joy'', score = 9 / 10\<rparr>, \<lparr>label = ''fear'', score = 1 / 10\<rparr>]"

definition zeroClassifier :: classifier where
  "zeroClassifier n s = Inr [\<lparr>label = ''joy'', score = 0\<rparr>]"

definition failingClassifier :: classifier where
  "failingClassifier n s = Inl ''Service Unavailable''"

text \<open>
  Modelled from the spec: \<^verbatim>\<open>cleanTranscription\<close> of \<^verbatim>\<open>fileHelpers.js\<close>, which is not
  among the sources. The specification has it strip the engine's timestamp and progress
  decoration, collapse internal white space and trim. It gives no format for the
  decoration, so this cleaner collapses and trims only. It is the cleaner of the concrete
  environments below; the theorems hold for every cleaner.
\<close>

fun collapse :: "string \<Rightarrow> string" where
  "collapse [] = []"
| "collapse [c] = (if isWhiteSpace c then '' '' else [c])"
| "collapse (c # d # cs) =
     (if isWhiteSpace c
      then (if isWhiteSpace d then collapse (d # cs) else CHR '' '' # collapse (d # cs))
      else c # collapse (d # cs))"

definition collapseAndTrim :: "string \<Rightarrow> string" where
  "collapseAndTrim s = trim (collapse s)"

text \<open>
  Two replies of the generative model and what \<^verbatim>\<open>JSON.parse\<close> makes of them: one within
  the ranges the prompt asks for, one with a score of 7 and six tips.
\<close>

definition goodJson :: string where
  \<open>goodJson = ''{"evaluation":{"ratings":{"clarity":{"score":4},"relevance":{"score":3},"completeness":{"score":5}},"howToMakeItBetter":["Give numbers."]},"holisticFeedback":{"insight":"Steady."}}''\<close>

definition goodReply :: string where
  "goodReply = ''```json'' @ goodJson @ ''```''"

definition goodEvaluation :: json where
  "goodEvaluation =
     JObj [(''ratings'',
              JObj [(''clarity'', JObj [(''score'', JNum 4)]),
                    (''relevance'', JObj [(''score'', JNum 3)]),
                    (''completeness'', JObj [(''score'', JNum 5)])]),
           (''howToMakeItBetter'', JArr [JStr ''Give numbers.''])]"

definition goodFeedback :: json where
  "goodFeedback =
     JObj [(''evaluation'', goodEvaluation),
           (''holisticFeedback'', JObj [(''insight'', JStr ''Steady.'')])]"

definition overratedReply :: string where
  \<open>overratedReply = ''{"evaluation":{"ratings":{"clarity":{"score":7},"relevance":{"score":3},"completeness":{"score":4}},"howToMakeItBetter":["a","b","c","d","e","f"]}}''\<close>

definition overratedEvaluation :: json where
  "overratedEvaluation =
     JObj [(''ratings'',
              JObj [(''clarity'', JObj [(''score'', JNum 7)]),
                    (''relevance'', JObj [(''score'', JNum 3)]),
                    (''completeness'', JObj [(''score'', JNum 4)])]),
           (''howToMakeItBetter'',
              JArr [JStr ''a'', JStr ''b'', JStr ''c'', JStr ''d'', JStr ''e'', JStr ''f''])]"

definition demoParse :: "string \<Rightarrow> string + json" where
  "demoParse s =
     (if s = goodJson then Inr goodFeedback
      else if s = overratedReply then Inr (JObj [(''evaluation'', overratedEvaluation)])
      else Inl ''Unexpected end of JSON input'')"

text \<open>
  An environment in which every stage succeeds, and the variations of it in which the
  recording is silent, the upload cannot be stored, the classifier is down and the
  generative model overrates.
\<close>

definition demoEnv :: env where
  "demoEnv =
     \<lparr>uploadsDir = ''uploads'',
      ffmpegPath = ''ffmpeg'',
      whisperExe = ''whisper'',
      modelBin = ''ggml-base.en.bin'',
      uniqueId = ''1700000000000-42'',
      pathJoin = (\<lambda>dir name. dir @ ''/'' @ name),
      mv = (\<lambda>path. None),
      runCommand = (\<lambda>exe args. if exe = ''whisper'' then Inr '' I led a team.  '' else Inr []),
      cleanTranscription = collapseAndTrim,
      textClassification = joyClassifier,
      jsonParse = demoParse,
      generateContent = (\<lambda>p. Inr goodReply)\<rparr>"

definition silentEnv :: env where
  "silentEnv =
     demoEnv\<lparr>runCommand := (\<lambda>exe args. if exe = ''whisper'' then Inr (CHR 0x0A # ''   '') else Inr [])\<rparr>"

definition deniedEnv :: env where
  "deniedEnv = demoEnv\<lparr>mv := (\<lambda>path. Some ''EACCES: permission denied'')\<rparr>"

definition overratingEnv :: env where
  "overratingEnv = demoEnv\<lparr>generateContent := (\<lambda>p. Inr overratedReply)\<rparr>"

definition demoRequest :: request where
  "demoRequest =
     \<lparr>hasAudio = True,
      questionText = Some ''Tell me about yourself.'',
      domain = Some ''Backend'',
      experience = Some ''Senior'',
      postureData = None,
      emotionData = None\<rparr>"

definition noAudioRequest :: request where
  "noAudioRequest = demoRequest\<lparr>hasAudio := False\<rparr>"

definition emptyPostureRequest :: request where
  "emptyPostureRequest = demoRequest\<lparr>postureData := Some []\<rparr>"

definition brokenPostureRequest :: request where
  "brokenPostureRequest = demoRequest\<lparr>postureData := Some ''{broken''\<rparr>"


section \<open>Properties\<close>

subsection \<open>Sentence splitting\<close>

lemma matchAll_last:
  assumes "\<not> isTerminal c" and "dropWhile (\<lambda>x. \<not> isTerminal x) cs = []"
  shows "matchAll (c # cs) = [c # cs]"
proof -
  from assms(2) have "takeWhile (\<lambda>x. \<not> isTerminal x) cs = cs"
    by (metis takeWhile_dropWhile_id append_Nil2)
  with assms show ?thesis
    by (simp add: Let_def del: dropWhile_eq_Nil_conv)
qed

lemma matchAll_step:
  "\<not> isTerminal c \<Longrightarrow> dropWhile (\<lambda>x. \<not> isTerminal x) cs = t # r \<Longrightarrow>
   matchAll (c # cs) = (c # takeWhile (\<lambda>x. \<not> isTerminal x) cs @ [t]) # matchAll r"
  by (simp add: Let_def)

lemma take_drop_terminal:
  "dropWhile (\<lambda>x. \<not> isTerminal x) cs = t # r \<Longrightarrow>
   takeWhile (\<lambda>x. \<not> isTerminal x) cs @ t # r = cs"
  by (metis takeWhile_dropWhile_id)

text \<open>Induction along the matcher: the three ways a non-empty text is consumed.\<close>

lemma matchAll_cases [case_names empty terminal last step]:
  assumes "P []"
    and "\<And>c cs. isTerminal c \<Longrightarrow> P cs \<Longrightarrow> P (c # cs)"
    and "\<And>c cs. \<not> isTerminal c \<Longrightarrow> dropWhile (\<lambda>x. \<not> isTerminal x) cs = [] \<Longrightarrow> P (c # cs)"
    and "\<And>c cs t r. \<not> isTerminal c \<Longrightarrow> dropWhile (\<lambda>x. \<not> isTerminal x) cs = t # r \<Longrightarrow>
           P r \<Longrightarrow> P (c # cs)"
  shows "P s"
proof (induction s rule: matchAll.induct)
  case 1
  show ?case by (rule assms(1))
next
  case (2 c cs)
  show ?case
  proof (cases "isTerminal c")
    case True
    with 2 assms(2) show ?thesis by simp
  next
    case nt: False
    show ?thesis
    proof (cases "dropWhile (\<lambda>x. \<not> isTerminal x) cs")
      case Nil
      with nt show ?thesis by (rule assms(3))
    next
      case (Cons t r)
      with nt have "dropWhile (\<lambda>x. \<not> isTerminal x) (c # cs) = t # r" by simp
      with "2.IH"(2)[OF nt refl refl] have "P r" by simp
      with nt Cons show ?thesis by (rule assms(4))
    qed
  qed
qed

lemma dropWhile_punctuated:
  "singlyPunctuated b xs \<Longrightarrow> dropWhile (\<lambda>x. \<not> isTerminal x) xs = t # r \<Longrightarrow>
   singlyPunctuated True r"
  by (induction xs arbitrary: b) (auto split: if_splits)

lemma concat_matchAll_id: "singlyPunctuated True s \<Longrightarrow> concat (matchAll s) = s"
proof (induction s rule: matchAll_cases)
  case empty
  show ?case by simp
next
  case (terminal c cs)
  then show ?case by simp
next
  case (last c cs)
  then show ?case by (simp add: matchAll_last del: matchAll.simps dropWhile_eq_Nil_conv)
next
  case (step c cs t r)
  from step.prems step.hyps(1) have "singlyPunctuated False cs" by simp
  then have "singlyPunctuated True r" using step.hyps(2) by (rule dropWhile_punctuated)
  then have "concat (matchAll r) = r" by (rule step.IH)
  then show ?case
    using step.hyps by (simp add: matchAll_step take_drop_terminal del: matchAll.simps)
qed

lemma subseq_matchAll: "subseq (concat (matchAll s)) s"
proof (induction s rule: matchAll_cases)
  case empty
  show ?case by simp
next
  case (terminal c cs)
  then show ?case by (simp add: list_emb_Cons)
next
  case (last c cs)
  then show ?case by (simp add: matchAll_last del: matchAll.simps dropWhile_eq_Nil_conv)
next
  case (step c cs t r)
  have "subseq (takeWhile (\<lambda>x. \<not> isTerminal x) cs @ t # concat (matchAll r))
               (takeWhile (\<lambda>x. \<not> isTerminal x) cs @ t # r)"
    using step.IH by (simp add: subseq_append')
  then show ?case
    using step.hyps by (simp add: matchAll_step take_drop_terminal del: matchAll.simps)
qed

lemma filter_matchAll:
  "filter (\<lambda>x. \<not> isTerminal x) (concat (matchAll s)) = filter (\<lambda>x. \<not> isTerminal x) s"
proof (induction s rule: matchAll_cases)
  case empty
  show ?case by simp
next
  case (terminal c cs)
  then show ?case by simp
next
  case (last c cs)
  then show ?case by (simp add: matchAll_last del: matchAll.simps dropWhile_eq_Nil_conv)
next
  case (step c cs t r)
  have "filter (\<lambda>x. \<not> isTerminal x) (takeWhile (\<lambda>x. \<not> isTerminal x) cs @ t # concat (matchAll r))
      = filter (\<lambda>x. \<not> isTerminal x) (takeWhile (\<lambda>x. \<not> isTerminal x) cs @ t # r)"
    using step.IH by simp
  then show ?case
    using step.hyps by (simp add: matchAll_step take_drop_terminal del: matchAll.simps)
qed

lemma concat_sentences:
  "concat (sentences s) = (if matchAll s = [] then s else concat (matchAll s))"
  by (simp add: sentences_def split: list.splits)

text \<open>
  C3, as stated: for every transcript, the concatenation of its sentences is the transcript
  again, up to white space. The code refutes it: of two terminal characters in a row the
  matcher keeps the first only, so \<^verbatim>\<open>"Hi.."\<close> is split into the one sentence
  \<^verbatim>\<open>"Hi."\<close>.
\<close>

theorem C3_reassembly_counterexample:
  "concat (sentences ''Hi..'') = ''Hi.'' \<and>
   \<not> sameUpToWhiteSpace (concat (sentences ''Hi..'')) ''Hi..''"
  by (simp add: sentences_def sameUpToWhiteSpace_def isTerminal_def isWhiteSpace_def)

text \<open>
  C3, amended: when no terminal character starts the transcript or directly follows
  another one, the concatenation of the sentences is the transcript, character for
  character. For every transcript the concatenation is a subsequence of the transcript
  (nothing is duplicated or reordered) and has all its non-terminal characters: the only
  characters ever dropped are terminal characters.
\<close>

theorem C3_reassembly:
  "(wellPunctuated s \<longrightarrow> concat (sentences s) = s) \<and>
   subseq (concat (sentences s)) s \<and>
   filter (\<lambda>c. \<not> isTerminal c) (concat (sentences s)) = filter (\<lambda>c. \<not> isTerminal c) s"
  by (simp add: concat_sentences wellPunctuated_def concat_matchAll_id subseq_matchAll
      filter_matchAll)

theorem C3_reassembly_witness:
  "wellPunctuated ''Hi. Bye'' \<and> concat (sentences ''Hi. Bye'') = ''Hi. Bye''"
proof -
  have h: "wellPunctuated ''Hi. Bye''"
    by (simp add: wellPunctuated_def isTerminal_def)
  from C3_reassembly[of "''Hi. Bye''"] h have "concat (sentences ''Hi. Bye'') = ''Hi. Bye''"
    by blast
  with h show ?thesis by blast
qed

subsection \<open>Normalisation\<close>







text \<open>The detailed scores of a paragraph are the normalised accumulated scores.\<close>

lemma detailedScores_normalized:
  "detailedScores (fst (classifyParagraph hf t)) =
     normalizeScores (scores (sentenceLoop hf (sentences t) \<lparr>scores = [], calls = 0, trace = []\<rparr>))"
  by (simp add: classifyParagraph_def Let_def)




subsection \<open>Classification with retries\<close>

lemma attemptLoop_done: "attemptLoop hf t (Suc (Suc (Suc (Suc 0)))) st = st"
  by (subst attemptLoop.simps) (simp add: maxRetries_def numeral_3_eq_3)

lemma attemptLoop_third:
  "attemptLoop hf t (Suc (Suc (Suc 0))) st =
     (case hf (calls st) t of
        Inr res \<Rightarrow> st\<lparr>scores := foldl accumulate (scores st) res, calls := calls st + 1,
                     trace := trace st @ [Classified t]\<rparr>
      | Inl message \<Rightarrow> st\<lparr>calls := calls st + 1,
                         trace := trace st @ [Classified t, Warned t message]\<rparr>)"
  by (subst attemptLoop.simps)
     (simp add: maxRetries_def numeral_3_eq_3 attemptLoop_done split: sum.splits)

lemma attemptLoop_second:
  "attemptLoop hf t (Suc (Suc 0)) st =
     (case hf (calls st) t of
        Inr res \<Rightarrow> st\<lparr>scores := foldl accumulate (scores st) res, calls := calls st + 1,
                     trace := trace st @ [Classified t]\<rparr>
      | Inl message \<Rightarrow> attemptLoop hf t (Suc (Suc (Suc 0))) (st\<lparr>calls := calls st + 1,
                         trace := trace st @ [Classified t, Slept 500]\<rparr>))"
  by (subst attemptLoop.simps) (simp add: maxRetries_def numeral_3_eq_3 split: sum.splits)

lemma attemptLoop_first:
  "attemptLoop hf t (Suc 0) st =
     (case hf (calls st) t of
        Inr res \<Rightarrow> st\<lparr>scores := foldl accumulate (scores st) res, calls := calls st + 1,
                     trace := trace st @ [Classified t]\<rparr>
      | Inl message \<Rightarrow> attemptLoop hf t (Suc (Suc 0)) (st\<lparr>calls := calls st + 1,
                         trace := trace st @ [Classified t, Slept 500]\<rparr>))"
  by (subst attemptLoop.simps) (simp add: maxRetries_def numeral_3_eq_3 split: sum.splits)

text \<open>
  The four ways the retry loop of one sentence ends: success at the first, second or third
  attempt, or three failures.
\<close>

lemma retry_shape:
  "(\<exists>k res. k < 3 \<and> (\<forall>i<k. isl (hf (calls st + i) t)) \<and> hf (calls st + k) t = Inr res \<and>
       attemptLoop hf t 1 st =
         st\<lparr>scores := foldl accumulate (scores st) res, calls := calls st + k + 1,
            trace := trace st @ failedAttempts t k @ [Classified t]\<rparr>) \<or>
   (\<exists>message. (\<forall>i<3. isl (hf (calls st + i) t)) \<and> hf (calls st + 2) t = Inl message \<and>
       attemptLoop hf t 1 st =
         st\<lparr>calls := calls st + 3,
            trace := trace st @ failedAttempts t 2 @ [Classified t, Warned t message]\<rparr>)"
proof (cases "hf (calls st) t")
  case (Inr res)
  then have "0 < (3::nat) \<and> (\<forall>i<0. isl (hf (calls st + i) t)) \<and> hf (calls st + 0) t = Inr res \<and>
       attemptLoop hf t 1 st =
         st\<lparr>scores := foldl accumulate (scores st) res, calls := calls st + 0 + 1,
            trace := trace st @ failedAttempts t 0 @ [Classified t]\<rparr>"
    by (simp add: attemptLoop_first failedAttempts_def)
  then show ?thesis by blast
next
  case a: (Inl m1)
  show ?thesis
  proof (cases "hf (calls st + 1) t")
    case (Inr res)
    with a have "1 < (3::nat) \<and> (\<forall>i<1. isl (hf (calls st + i) t)) \<and>
       hf (calls st + 1) t = Inr res \<and>
       attemptLoop hf t 1 st =
         st\<lparr>scores := foldl accumulate (scores st) res, calls := calls st + 1 + 1,
            trace := trace st @ failedAttempts t 1 @ [Classified t]\<rparr>"
      by (simp add: attemptLoop_first attemptLoop_second failedAttempts_def)
    then show ?thesis by blast
  next
    case b: (Inl m2)
    show ?thesis
    proof (cases "hf (calls st + 2) t")
      case (Inr res)
      have "\<forall>i<2. isl (hf (calls st + i) t)"
        using a b by (auto simp: less_Suc_eq numeral_2_eq_2)
      with a b Inr have "2 < (3::nat) \<and> (\<forall>i<2. isl (hf (calls st + i) t)) \<and>
       hf (calls st + 2) t = Inr res \<and>
       attemptLoop hf t 1 st =
         st\<lparr>scores := foldl accumulate (scores st) res, calls := calls st + 2 + 1,
            trace := trace st @ failedAttempts t 2 @ [Classified t]\<rparr>"
        by (simp add: attemptLoop_first attemptLoop_second attemptLoop_third failedAttempts_def
            numeral_2_eq_2)
      then show ?thesis by blast
    next
      case c: (Inl m3)
      have "\<forall>i<3. isl (hf (calls st + i) t)"
        using a b c by (auto simp: less_Suc_eq numeral_3_eq_3 numeral_2_eq_2)
      with a b c have "(\<forall>i<3. isl (hf (calls st + i) t)) \<and> hf (calls st + 2) t = Inl m3 \<and>
       attemptLoop hf t 1 st =
         st\<lparr>calls := calls st + 3,
            trace := trace st @ failedAttempts t 2 @ [Classified t, Warned t m3]\<rparr>"
        by (simp add: attemptLoop_first attemptLoop_second attemptLoop_third failedAttempts_def
            numeral_2_eq_2)
      then show ?thesis by blast
    qed
  qed
qed

lemma attemptLoop_scores:
  assumes "\<And>n res. hf n t = Inr res \<Longrightarrow> res = []"
  shows "scores (attemptLoop hf t 1 st) = scores st"
proof -
  from retry_shape[of hf st t] show ?thesis
  proof (elim disjE exE conjE)
    fix k res
    assume "hf (calls st + k) t = Inr res"
      and eq: "attemptLoop hf t 1 st =
         st\<lparr>scores := foldl accumulate (scores st) res, calls := calls st + k + 1,
            trace := trace st @ failedAttempts t k @ [Classified t]\<rparr>"
    then have "res = []" using assms by blast
    with eq show ?thesis by simp
  next
    fix message
    assume "attemptLoop hf t 1 st =
         st\<lparr>calls := calls st + 3,
            trace := trace st @ failedAttempts t 2 @ [Classified t, Warned t message]\<rparr>"
    then show ?thesis by simp
  qed
qed

lemma sentenceLoop_scores:
  assumes "\<And>n s res. s \<in> set ss \<Longrightarrow> hf n (trim s) = Inr res \<Longrightarrow> res = []"
  shows "scores (sentenceLoop hf ss st) = scores st"
  using assms
proof (induction ss arbitrary: st)
  case Nil
  show ?case by simp
next
  case (Cons s ss)
  have rest: "\<And>st'. scores (sentenceLoop hf ss st') = scores st'"
    by (rule Cons.IH) (rule Cons.prems, simp_all)
  have "scores (attemptLoop hf (trim s) 1 st) = scores st"
    by (rule attemptLoop_scores) (rule Cons.prems, simp_all)
  with rest show ?case by (simp add: Let_def)
qed





text \<open>
  C2, as stated: when no classification contributes a positive score, because every call
  fails or because every returned score is zero, the dominant emotion is \<^verbatim>\<open>"neutral"\<close>
  and the detailed scores are empty. The code refutes the second case: a label returned
  with score zero is entered in the score map, the zero total leaves the map as it is, and
  the first of its labels is the dominant emotion.
\<close>

theorem C2_neutral_counterexample:
  "zeroClassifier 0 ''Hello.'' = Inr [\<lparr>label = ''joy'', score = 0\<rparr>] \<and>
   classifyParagraph zeroClassifier ''Hello.'' =
     (\<lparr>dominantEmotion = ''joy'', detailedScores = [(''joy'', 0)]\<rparr>, [Classified ''Hello.''])"
  by code_simp

text \<open>
  C2, amended: when no classification of a sentence of the transcript returns any label,
  because every call fails after its retries or resolves to an empty array, the dominant
  emotion is \<^verbatim>\<open>"neutral"\<close> and the detailed scores are empty.
\<close>

theorem C2_neutral:
  assumes "\<forall>n s res. s \<in> set (sentences t) \<longrightarrow> hf n (trim s) = Inr res \<longrightarrow> res = []"
  shows "dominantEmotion (fst (classifyParagraph hf t)) = ''neutral'' \<and>
         detailedScores (fst (classifyParagraph hf t)) = []"
proof -
  have "\<And>n s res. s \<in> set (sentences t) \<Longrightarrow> hf n (trim s) = Inr res \<Longrightarrow> res = []"
    using assms by blast
  then have "scores (sentenceLoop hf (sentences t) \<lparr>scores = [], calls = 0, trace = []\<rparr>) = []"
    using sentenceLoop_scores[of "sentences t" hf] by simp
  then show ?thesis
    by (simp add: classifyParagraph_def Let_def normalizeScores_def totalScore_def
        sortedEntries_def)
qed

theorem C2_neutral_witness:
  "dominantEmotion (fst (classifyParagraph failingClassifier ''Hello. Bye.'')) = ''neutral'' \<and>
   detailedScores (fst (classifyParagraph failingClassifier ''Hello. Bye.'')) = []"
proof -
  have "\<forall>n s res. s \<in> set (sentences ''Hello. Bye.'') \<longrightarrow>
          failingClassifier n (trim s) = Inr res \<longrightarrow> res = []"
    by (simp add: failingClassifier_def)
  then show ?thesis by (rule C2_neutral)
qed

subsection \<open>The handler\<close>

lemma tryBlock_starts: "\<exists>evs. fst (snd (tryBlock e req files)) = Moved (webmPathOf e) # evs"
  by (auto simp: tryBlock_def Let_def split: option.splits sum.splits prod.splits)

lemma evaluate_sends:
  "evaluate e req t = (Inr r, evs) \<Longrightarrow> \<exists>body. r = SendJson 200 body"
  by (auto simp: evaluate_def Let_def split: option.splits sum.splits prod.splits)

lemma tryBlock_sends:
  "tryBlock e req files = (Inr r, evs, files') \<Longrightarrow> \<exists>body. r = SendJson 200 body"
  by (auto simp: tryBlock_def Let_def split: option.splits sum.splits prod.splits if_splits
      dest: evaluate_sends)


lemma paths_classifier [simp]:
  "webmPathOf (e\<lparr>textClassification := hf\<rparr>) = webmPathOf e"
  "wavPathOf (e\<lparr>textClassification := hf\<rparr>) = wavPathOf e"
  by (simp_all add: webmPathOf_def wavPathOf_def)

lemma parseOptional_classifier [simp]:
  "parseOptional (e\<lparr>textClassification := hf\<rparr>) d = parseOptional e d"
  by (simp add: parseOptional_def split: option.splits)

text \<open>What a successful run of the statements after the no-speech test has done.\<close>

lemma evaluate_Inr:
  assumes "evaluate e req t = (Inr sent, evs)"
  shows "\<exists>r cevs p q pr reply ai v w.
           classifyParagraph (textClassification e) t = (r, cevs) \<and>
           parseOptional e (postureData req) = Inr p \<and>
           parseOptional e (emotionData req) = Inr q \<and>
           pr = \<lparr>promptDomain = domain req, promptExperience = experience req,
                  promptQuestion = questionText req, promptTranscript = t,
                  promptPosture = p, promptEmotion = q,
                  promptTone = mapEmotion (dominantEmotion r)\<rparr> \<and>
           generateContent e pr = Inr reply \<and>
           jsonParse e (stripFences (trim reply)) = Inr ai \<and>
           getMember ai ''evaluation'' = Inr v \<and>
           getMember ai ''holisticFeedback'' = Inr w \<and>
           sent = SendJson 200 (JObj (members
                    [(''transcription'', Some (JStr t)),
                     (''postureAnalysis'', Some (JObj [(''data'', p)])),
                     (''emotionAnalysis'', Some (JObj [(''data'', q)])),
                     (''dominantEmotion'', Some (JStr (dominantEmotion r))),
                     (''textualEmotionAnalysis'',
                        Some (JObj [(''data'', scoresJson (detailedScores r))])),
                     (''evaluation'', v),
                     (''holisticFeedback'', w),
                     (''question'', map_option JStr (questionText req))])) \<and>
           evs = cevs @ [Generated pr]"
  using assms
  by (auto simp: evaluate_def Let_def split: prod.splits sum.splits)



lemma tryBlock_cases:
  assumes "tryBlock e req files = (Inr sent, evs, files')"
  shows "sent = SendJson 200 skipResponse \<or>
         (\<exists>out evs'. cleanTranscription e out \<noteq> [] \<and>
            evaluate e req (cleanTranscription e out) = (Inr sent, evs') \<and>
            evs = [Moved (webmPathOf e),
                   Ran (ffmpegPath e) [''-y'', ''-i'', webmPathOf e, ''-ar'', ''16000'', ''-ac'', ''1'',
                      ''-acodec'', ''pcm_s16le'', wavPathOf e],
                   Ran (whisperExe e) [''-f'', wavPathOf e, ''-m'', modelBin e]] @ evs')"
  using assms
  by (auto simp: tryBlock_def Let_def split: option.splits sum.splits prod.splits if_splits)

lemma handler_json:
  assumes "fst (handler e req files) = SendJson code body"
  shows "\<exists>tevs tfiles err1 err2.
           tryBlock e req files = (Inr (SendJson code body), tevs, tfiles) \<and>
           fst (snd (handler e req files)) =
             tevs @ [Unlinked (webmPathOf e) err1, Unlinked (wavPathOf e) err2]"
  using assms
  by (auto simp: handler_def Let_def unlink_def split: if_splits prod.splits sum.splits)

text \<open>A successful answer other than the no-speech one comes from the statements after the test.\<close>

lemma handler_evaluated:
  assumes "fst (handler e req files) = SendJson code body" and "body \<noteq> skipResponse"
  shows "\<exists>out evs' err1 err2.
           evaluate e req (cleanTranscription e out) = (Inr (SendJson code body), evs') \<and>
           fst (snd (handler e req files)) =
             [Moved (webmPathOf e),
              Ran (ffmpegPath e) [''-y'', ''-i'', webmPathOf e, ''-ar'', ''16000'', ''-ac'', ''1'',
                 ''-acodec'', ''pcm_s16le'', wavPathOf e],
              Ran (whisperExe e) [''-f'', wavPathOf e, ''-m'', modelBin e]] @ evs' @
             [Unlinked (webmPathOf e) err1, Unlinked (wavPathOf e) err2]"
proof -
  from handler_json[OF assms(1)] obtain tevs tfiles err1 err2
    where t: "tryBlock e req files = (Inr (SendJson code body), tevs, tfiles)"
      and evs: "fst (snd (handler e req files)) =
                  tevs @ [Unlinked (webmPathOf e) err1, Unlinked (wavPathOf e) err2]"
    by blast
  from tryBlock_cases[OF t] assms(2) obtain out evs'
    where "evaluate e req (cleanTranscription e out) = (Inr (SendJson code body), evs')"
      and "tevs = [Moved (webmPathOf e),
                   Ran (ffmpegPath e) [''-y'', ''-i'', webmPathOf e, ''-ar'', ''16000'', ''-ac'', ''1'',
                      ''-acodec'', ''pcm_s16le'', wavPathOf e],
                   Ran (whisperExe e) [''-f'', wavPathOf e, ''-m'', modelBin e]] @ evs'"
    by auto
  with evs show ?thesis by auto
qed

text \<open>The concrete environments, evaluated.\<close>

lemma demo_stages:
  "hasAudio demoRequest"
  "mv demoEnv (webmPathOf demoEnv) = None"
  "runCommand demoEnv (ffmpegPath demoEnv)
     [''-y'', ''-i'', webmPathOf demoEnv, ''-ar'', ''16000'', ''-ac'', ''1'',
      ''-acodec'', ''pcm_s16le'', wavPathOf demoEnv] = Inr []"
  "runCommand demoEnv (whisperExe demoEnv) [''-f'', wavPathOf demoEnv, ''-m'', modelBin demoEnv]
     = Inr '' I led a team.  ''"
  "cleanTranscription demoEnv '' I led a team.  '' \<noteq> []"
  by code_simp+

lemma silent_stages:
  "mv silentEnv (webmPathOf silentEnv) = None"
  "runCommand silentEnv (ffmpegPath silentEnv)
     [''-y'', ''-i'', webmPathOf silentEnv, ''-ar'', ''16000'', ''-ac'', ''1'',
      ''-acodec'', ''pcm_s16le'', wavPathOf silentEnv] = Inr []"
  "runCommand silentEnv (whisperExe silentEnv)
     [''-f'', wavPathOf silentEnv, ''-m'', modelBin silentEnv] = Inr (CHR 0x0A # ''   '')"
  "cleanTranscription silentEnv (CHR 0x0A # ''   '') = []"
  by code_simp+




text \<open>
  C4: when the cleaned transcript is empty, the answer is exactly
  \<^verbatim>\<open>{ skipEvaluation: true, message: "No speech detected." }\<close> and the run calls neither
  the classifier nor the generative model: its trace has no such event. The cleaner is any function; in the witness it
  is the one that collapses and trims, on an output of a line feed and three spaces.
\<close>

theorem C4_no_speech:
  assumes "hasAudio req"
    and "mv e (webmPathOf e) = None"
    and "runCommand e (ffmpegPath e)
           [''-y'', ''-i'', webmPathOf e, ''-ar'', ''16000'', ''-ac'', ''1'',
            ''-acodec'', ''pcm_s16le'', wavPathOf e] = Inr converted"
    and "runCommand e (whisperExe e) [''-f'', wavPathOf e, ''-m'', modelBin e] = Inr whisperOutput"
    and "cleanTranscription e whisperOutput = []"
  shows "fst (handler e req files) = SendJson 200 skipResponse \<and>
         filter isClassified (fst (snd (handler e req files))) = [] \<and>
         filter isGenerated (fst (snd (handler e req files))) = []"
  using assms
  by (auto simp: handler_def tryBlock_def Let_def unlink_def split: prod.splits)

theorem C4_no_speech_witness:
  "hasAudio demoRequest \<and>
   mv silentEnv (webmPathOf silentEnv) = None \<and>
   runCommand silentEnv (ffmpegPath silentEnv)
     [''-y'', ''-i'', webmPathOf silentEnv, ''-ar'', ''16000'', ''-ac'', ''1'',
      ''-acodec'', ''pcm_s16le'', wavPathOf silentEnv] = Inr [] \<and>
   runCommand silentEnv (whisperExe silentEnv)
     [''-f'', wavPathOf silentEnv, ''-m'', modelBin silentEnv] = Inr (CHR 0x0A # ''   '') \<and>
   cleanTranscription silentEnv (CHR 0x0A # ''   '') = [] \<and>
   fst (handler silentEnv demoRequest {}) = SendJson 200 skipResponse \<and>
   filter isClassified (fst (snd (handler silentEnv demoRequest {}))) = [] \<and>
   filter isGenerated (fst (snd (handler silentEnv demoRequest {}))) = []"
  using C4_no_speech[OF demo_stages(1) silent_stages, where files = "{}"]
    demo_stages(1) silent_stages
  by blast

text \<open>
  C5: every run that gets past the guard on the upload ends with the two
  \<^verbatim>\<open>fs.unlink\<close> calls, whatever the \<^verbatim>\<open>try\<close> block did: answered in full, answered
  ``no speech'' or thrown. Neither file is there afterwards. An unlink of a file that is
  not there gets \<^verbatim>\<open>ENOENT\<close> in its callback and nothing else happens: the response is
  the one the \<^verbatim>\<open>try\<close> and \<^verbatim>\<open>catch\<close> blocks decided.
\<close>

theorem C5_cleanup:
  assumes "hasAudio req"
  shows "\<exists>evs err1 err2.
           fst (snd (handler e req files)) =
             evs @ [Unlinked (webmPathOf e) err1, Unlinked (wavPathOf e) err2] \<and>
           (err1 = None \<or> err1 = Some ''ENOENT'') \<and>
           (err2 = None \<or> err2 = Some ''ENOENT'') \<and>
           webmPathOf e \<notin> snd (snd (handler e req files)) \<and>
           wavPathOf e \<notin> snd (snd (handler e req files)) \<and>
           fst (handler e req files) =
             (case fst (tryBlock e req files) of
                Inr sent \<Rightarrow> sent
              | Inl message \<Rightarrow> Send 500 (''Processing failed: '' @ message))"
proof -
  obtain r evs files1 where t: "tryBlock e req files = (r, evs, files1)"
    by (cases "tryBlock e req files") auto
  with assms show ?thesis
    by (cases r) (auto simp: handler_def Let_def unlink_def split: prod.splits)
qed

text \<open>
  The witness is the run in which the upload cannot be stored: neither file exists when
  the \<^verbatim>\<open>finally\<close> block runs, both unlinks get \<^verbatim>\<open>ENOENT\<close>, and the answer is the 500
  of the failed \<^verbatim>\<open>mv\<close>.
\<close>

theorem C5_cleanup_witness:
  "hasAudio demoRequest \<and>
   handler deniedEnv demoRequest {} =
     (Send 500 ''Processing failed: EACCES: permission denied'',
      [Moved ''uploads/1700000000000-42-answer.webm'',
       LoggedError ''EACCES: permission denied'',
       Unlinked ''uploads/1700000000000-42-answer.webm'' (Some ''ENOENT''),
       Unlinked ''uploads/1700000000000-42-answer.wav'' (Some ''ENOENT'')],
      {}) \<and>
   (\<exists>evs err1 err2.
      fst (snd (handler deniedEnv demoRequest {})) =
        evs @ [Unlinked (webmPathOf deniedEnv) err1, Unlinked (wavPathOf deniedEnv) err2] \<and>
      (err1 = None \<or> err1 = Some ''ENOENT'') \<and>
      (err2 = None \<or> err2 = Some ''ENOENT'') \<and>
      webmPathOf deniedEnv \<notin> snd (snd (handler deniedEnv demoRequest {})) \<and>
      wavPathOf deniedEnv \<notin> snd (snd (handler deniedEnv demoRequest {})) \<and>
      fst (handler deniedEnv demoRequest {}) =
        (case fst (tryBlock deniedEnv demoRequest {}) of
           Inr sent \<Rightarrow> sent
         | Inl message \<Rightarrow> Send 500 (''Processing failed: '' @ message)))"
proof -
  have run: "handler deniedEnv demoRequest {} =
     (Send 500 ''Processing failed: EACCES: permission denied'',
      [Moved ''uploads/1700000000000-42-answer.webm'',
       LoggedError ''EACCES: permission denied'',
       Unlinked ''uploads/1700000000000-42-answer.webm'' (Some ''ENOENT''),
       Unlinked ''uploads/1700000000000-42-answer.wav'' (Some ''ENOENT'')],
      {})"
    by code_simp
  from C5_cleanup[OF demo_stages(1), of deniedEnv "{}"] demo_stages(1) run
  show ?thesis by blast
qed



lemma evaluate_report:
  assumes "evaluate e req t = (Inr (SendJson code body), evs)"
    and "getMember body ''evaluation'' = Inr (Some ev)"
  shows "\<exists>pr reply ai. generateContent e pr = Inr reply \<and>
           jsonParse e (stripFences (trim reply)) = Inr ai \<and>
           getMember ai ''evaluation'' = Inr (Some ev)"
proof -
  from evaluate_Inr[OF assms(1)] show ?thesis
  proof (elim exE conjE)
    fix r cevs p q pr reply ai v w
    assume g: "generateContent e pr = Inr reply"
      and j: "jsonParse e (stripFences (trim reply)) = Inr ai"
      and m: "getMember ai ''evaluation'' = Inr v"
      and b: "SendJson code body = SendJson 200 (JObj (members
                    [(''transcription'', Some (JStr t)),
                     (''postureAnalysis'', Some (JObj [(''data'', p)])),
                     (''emotionAnalysis'', Some (JObj [(''data'', q)])),
                     (''dominantEmotion'', Some (JStr (dominantEmotion r))),
                     (''textualEmotionAnalysis'',
                        Some (JObj [(''data'', scoresJson (detailedScores r))])),
                     (''evaluation'', v),
                     (''holisticFeedback'', w),
                     (''question'', map_option JStr (questionText req))]))"
    from b assms(2) have "v = Some ev"
      by (cases v; cases w; cases "questionText req") auto
    with g j m show ?thesis by blast
  qed
qed

text \<open>
  C7, as stated: every evaluation report returned has its three scores in \<open>[1, 5]\<close> and
  at most five tips. The code refutes it: the handler passes on whatever the generative
  model replied, and a reply with a score of 7 and six tips reaches the caller.
\<close>

theorem C7_report_counterexample:
  "evaluationOf (fst (handler overratingEnv demoRequest {})) = Some overratedEvaluation \<and>
   \<not> validEvaluation overratedEvaluation"
  by code_simp

text \<open>
  C7, amended: every evaluation report returned is the \<^verbatim>\<open>evaluation\<close> member of the
  JSON value parsed from the reply of the generative model, as it is. Its scores are in
  range and its tips at most five exactly when the model's reply has them so; the handler
  neither checks nor repairs the reply.
\<close>

theorem C7_report:
  assumes "evaluationOf (fst (handler e req files)) = Some ev"
  shows "\<exists>pr reply ai. generateContent e pr = Inr reply \<and>
           jsonParse e (stripFences (trim reply)) = Inr ai \<and>
           getMember ai ''evaluation'' = Inr (Some ev)"
proof -
  from assms obtain code props
    where r: "fst (handler e req files) = SendJson code (JObj props)"
      and m: "map_of props ''evaluation'' = Some ev"
    by (auto elim: evaluationOf.elims)
  from m have "JObj props \<noteq> skipResponse"
    by (auto simp: skipResponse_def)
  with r handler_evaluated obtain out evs'
    where "evaluate e req (cleanTranscription e out) = (Inr (SendJson code (JObj props)), evs')"
    by blast
  moreover from m have "getMember (JObj props) ''evaluation'' = Inr (Some ev)"
    by simp
  ultimately show ?thesis by (rule evaluate_report)
qed

theorem C7_report_witness:
  "evaluationOf (fst (handler demoEnv demoRequest {})) = Some goodEvaluation \<and>
   (\<exists>pr reply ai. generateContent demoEnv pr = Inr reply \<and>
      jsonParse demoEnv (stripFences (trim reply)) = Inr ai \<and>
      getMember ai ''evaluation'' = Inr (Some goodEvaluation))"
proof -
  have h: "evaluationOf (fst (handler demoEnv demoRequest {})) = Some goodEvaluation"
    by code_simp
  from C7_report[OF h] h show ?thesis by blast
qed

text \<open>
  C8: without an uploaded audio file the answer is 400 \<^verbatim>\<open>No audio uploaded\<close>, nothing
  has been run and no file has been touched. It is the only rejection of that kind: with
  an upload the first thing the handler does is to store it, and every plain-text answer
  it gives afterwards is a 500.
\<close>

theorem C8_missing_upload:
  "(\<not> hasAudio req \<longrightarrow> handler e req files = (Send 400 ''No audio uploaded'', [], files)) \<and>
   (hasAudio req \<longrightarrow> (\<exists>evs. fst (snd (handler e req files)) = Moved (webmPathOf e) # evs)) \<and>
   (hasAudio req \<longrightarrow> (\<forall>code msg. fst (handler e req files) = Send code msg \<longrightarrow> code = 500))"
proof (intro conjI impI allI)
  assume "\<not> hasAudio req"
  then show "handler e req files = (Send 400 ''No audio uploaded'', [], files)"
    by (simp add: handler_def)
next
  assume a: "hasAudio req"
  obtain r evs files1 where t: "tryBlock e req files = (r, evs, files1)"
    by (cases "tryBlock e req files") auto
  from tryBlock_starts[of e req files] t obtain evs' where "evs = Moved (webmPathOf e) # evs'"
    by auto
  with a t show "\<exists>evs. fst (snd (handler e req files)) = Moved (webmPathOf e) # evs"
    by (auto simp: handler_def Let_def split: prod.splits sum.splits)
next
  fix code msg
  assume a: "hasAudio req" and s: "fst (handler e req files) = Send code msg"
  obtain r evs files1 where t: "tryBlock e req files = (r, evs, files1)"
    by (cases "tryBlock e req files") auto
  show "code = 500"
  proof (cases r)
    case (Inl message)
    with a t s show ?thesis
      by (auto simp: handler_def Let_def split: prod.splits)
  next
    case (Inr sent)
    with t tryBlock_sends obtain body where "sent = SendJson 200 body" by blast
    with a t s Inr show ?thesis
      by (auto simp: handler_def Let_def split: prod.splits)
  qed
qed

theorem C8_missing_upload_witness:
  "\<not> hasAudio noAudioRequest \<and>
   handler demoEnv noAudioRequest {} = (Send 400 ''No audio uploaded'', [], {}) \<and>
   hasAudio demoRequest \<and>
   (\<exists>evs. fst (snd (handler deniedEnv demoRequest {})) = Moved (webmPathOf deniedEnv) # evs) \<and>
   fst (handler deniedEnv demoRequest {}) = Send 500 ''Processing failed: EACCES: permission denied''"
proof -
  have n: "\<not> hasAudio noAudioRequest" by code_simp
  have r: "fst (handler deniedEnv demoRequest {}) =
             Send 500 ''Processing failed: EACCES: permission denied''"
    by code_simp
  from C8_missing_upload[of noAudioRequest demoEnv "{}"] n
  have "handler demoEnv noAudioRequest {} = (Send 400 ''No audio uploaded'', [], {})"
    by blast
  moreover from C8_missing_upload[of demoRequest deniedEnv "{}"] demo_stages(1)
  have "\<exists>evs. fst (snd (handler deniedEnv demoRequest {})) = Moved (webmPathOf deniedEnv) # evs"
    by blast
  ultimately show ?thesis using n r demo_stages(1) by blast
qed

subsection \<open>The label table\<close>







subsection \<open>Telemetry\<close>

text \<open>
  C10, as stated: a request whose \<^verbatim>\<open>postureData\<close> or \<^verbatim>\<open>emotionData\<close> is present but
  not valid JSON fails with a 500. The code refutes it for the empty string: it is not
  valid JSON, but \<^verbatim>\<open>postureData ? JSON.parse(postureData) : null\<close> takes it for absent,
  nothing is parsed and the request is answered with a 200.
\<close>

theorem C10_telemetry_counterexample:
  "postureData emptyPostureRequest = Some [] \<and>
   jsonParse demoEnv [] = Inl ''Unexpected end of JSON input'' \<and>
   statusOf (fst (handler demoEnv emptyPostureRequest {})) = 200"
  by code_simp

text \<open>
  C10, amended: when the upload has been stored, transcoded and transcribed to a
  non-empty transcript, and \<^verbatim>\<open>postureData\<close> is a non-empty string that is not valid
  JSON (or \<^verbatim>\<open>postureData\<close> is fine and \<^verbatim>\<open>emotionData\<close> is such a string), the answer is
  500 \<^verbatim>\<open>Processing failed:\<close> with the message of the parse error. The classification has
  run in full by then, the generative model is not called, and the files are unlinked.
\<close>

theorem C10_telemetry:
  assumes "hasAudio req"
    and "mv e (webmPathOf e) = None"
    and "runCommand e (ffmpegPath e)
           [''-y'', ''-i'', webmPathOf e, ''-ar'', ''16000'', ''-ac'', ''1'',
            ''-acodec'', ''pcm_s16le'', wavPathOf e] = Inr converted"
    and "runCommand e (whisperExe e) [''-f'', wavPathOf e, ''-m'', modelBin e] = Inr whisperOutput"
    and "cleanTranscription e whisperOutput \<noteq> []"
    and "(postureData req = Some s \<and> s \<noteq> [] \<and> jsonParse e s = Inl message) \<or>
         (parseOptional e (postureData req) = Inr p \<and>
          emotionData req = Some s \<and> s \<noteq> [] \<and> jsonParse e s = Inl message)"
  shows "fst (handler e req files) = Send 500 (''Processing failed: '' @ message) \<and>
         (\<exists>err1 err2. fst (snd (handler e req files)) =
            [Moved (webmPathOf e),
             Ran (ffmpegPath e) [''-y'', ''-i'', webmPathOf e, ''-ar'', ''16000'', ''-ac'', ''1'',
                ''-acodec'', ''pcm_s16le'', wavPathOf e],
             Ran (whisperExe e) [''-f'', wavPathOf e, ''-m'', modelBin e]] @
            snd (classifyParagraph (textClassification e) (cleanTranscription e whisperOutput)) @
            [LoggedError message, Unlinked (webmPathOf e) err1, Unlinked (wavPathOf e) err2])"
proof -
  obtain r cevs where c:
    "classifyParagraph (textClassification e) (cleanTranscription e whisperOutput) = (r, cevs)"
    by (cases "classifyParagraph (textClassification e) (cleanTranscription e whisperOutput)") auto
  from assms(6) have "evaluate e req (cleanTranscription e whisperOutput) = (Inl message, cevs)"
    using c by (auto simp: evaluate_def parseOptional_def)
  with assms(1-5) c show ?thesis
    by (simp add: handler_def tryBlock_def Let_def unlink_def split: prod.splits)
qed

theorem C10_telemetry_witness:
  "hasAudio brokenPostureRequest \<and>
   mv demoEnv (webmPathOf demoEnv) = None \<and>
   runCommand demoEnv (ffmpegPath demoEnv)
     [''-y'', ''-i'', webmPathOf demoEnv, ''-ar'', ''16000'', ''-ac'', ''1'',
      ''-acodec'', ''pcm_s16le'', wavPathOf demoEnv] = Inr [] \<and>
   runCommand demoEnv (whisperExe demoEnv) [''-f'', wavPathOf demoEnv, ''-m'', modelBin demoEnv]
     = Inr '' I led a team.  '' \<and>
   cleanTranscription demoEnv '' I led a team.  '' \<noteq> [] \<and>
   postureData brokenPostureRequest = Some ''{broken'' \<and> ''{broken'' \<noteq> [] \<and>
   jsonParse demoEnv ''{broken'' = Inl ''Unexpected end of JSON input'' \<and>
   fst (handler demoEnv brokenPostureRequest {}) =
     Send 500 (''Processing failed: '' @ ''Unexpected end of JSON input'')"
proof -
  have a: "hasAudio brokenPostureRequest" by code_simp
  have b: "postureData brokenPostureRequest = Some ''{broken'' \<and> ''{broken'' \<noteq> [] \<and>
           jsonParse demoEnv ''{broken'' = Inl ''Unexpected end of JSON input''"
    by code_simp
  from b have d: "(postureData brokenPostureRequest = Some ''{broken'' \<and> ''{broken'' \<noteq> [] \<and>
             jsonParse demoEnv ''{broken'' = Inl ''Unexpected end of JSON input'') \<or>
         (parseOptional demoEnv (postureData brokenPostureRequest) = Inr JNull \<and>
          emotionData brokenPostureRequest = Some ''{broken'' \<and> ''{broken'' \<noteq> [] \<and>
          jsonParse demoEnv ''{broken'' = Inl ''Unexpected end of JSON input'')"
    by blast
  from C10_telemetry[OF a demo_stages(2-5) d, where files = "{}"] a demo_stages(2-5) b
  show ?thesis by blast
qed

end
